theory Spec2Isabelle
  imports Main "HOL-Library.Word"
begin

section \<open>Machine integers and library types used by the bridge\<close>

text \<open>
  Go's \<open>int64\<close>, \<open>int8\<close> and \<open>uint\<close> (64 bits on the bridge's targets) are words:
  \<open>+\<close>, \<open>-\<close> and \<open>*\<close> wrap around, \<open><s\<close> is the signed comparison of \<open>int64\<close>,
  \<open><\<close> the unsigned comparison of \<open>uint\<close>.
\<close>

type_synonym int64 = "64 word"
type_synonym int8 = "8 word"
type_synonym uint = "64 word"

text \<open>
  \<open>types.JID\<close> of the whatsmeow library: a struct of five fields. \<open>NewJID\<close> fills the
  user and the server and leaves the rest zero; \<open>IsEmpty\<close> tests the server part.
\<close>

record JID =
  User :: string
  RawAgent :: "8 word"
  Device :: "16 word"
  Integrator :: "16 word"
  Server :: string

definition DefaultUserServer :: string where
  "DefaultUserServer = ''s.whatsapp.net''"

definition NewJID :: "string \<Rightarrow> string \<Rightarrow> JID" where
  "NewJID user server =
     \<lparr>User = user, RawAgent = 0, Device = 0, Integrator = 0, Server = server\<rparr>"

definition IsEmpty :: "JID \<Rightarrow> bool" where
  "IsEmpty jid = (length (Server jid) = 0)"

text \<open>
  \<open>time.Time\<close>, reduced to what \<open>puppet.go\<close> reads: the seconds since the Unix epoch
  and the nanoseconds within the second. The zero \<open>Time\<close> is 1 January of year 1, that is
  \<open>-62135596800\<close> seconds before the epoch. \<open>Unix\<close> is the method \<open>t.Unix()\<close>,
  \<open>time_Unix\<close> the function \<open>time.Unix(sec, nsec)\<close> for \<open>nsec\<close> below one second.
\<close>

record Time =
  unix_sec :: int64
  nsec :: nat

definition zeroTime :: Time where
  "zeroTime = \<lparr>unix_sec = - 62135596800, nsec = 0\<rparr>"

definition IsZero :: "Time \<Rightarrow> bool" where
  "IsZero t = (unix_sec t = - 62135596800 \<and> nsec t = 0)"

definition Unix :: "Time \<Rightarrow> int64" where
  "Unix t = unix_sec t"

definition time_Unix :: "int64 \<Rightarrow> nat \<Rightarrow> Time" where
  "time_Unix s n = \<lparr>unix_sec = s, nsec = n\<rparr>"

text \<open>
  \<open>id.ContentURI\<close> belongs to the mautrix library. Its printer \<open>String()\<close> and its parser
  \<open>ParseContentURI\<close> are not part of this repository, so the functions that call them take
  them as a parameter of type \<open>uri_lib\<close>.
\<close>

record ContentURI =
  Homeserver :: string
  FileID :: string

record uri_lib =
  uri_String :: "ContentURI \<Rightarrow> string"
  ParseContentURI :: "string \<Rightarrow> ContentURI"

text \<open>
  The instance used for concrete runs, after the library: a URI prints as
  \<open>mxc://homeserver/fileid\<close>, and as the empty string when one of its parts is empty;
  the parser returns the empty URI for the empty string and for a string of another shape.
\<close>

definition ContentURI_String :: "ContentURI \<Rightarrow> string" where
  "ContentURI_String uri =
     (if length (Homeserver uri) = 0 \<or> length (FileID uri) = 0 then []
      else ''mxc://'' @ Homeserver uri @ ''/'' @ FileID uri)"

definition mxc_ParseContentURI :: "string \<Rightarrow> ContentURI" where
  "mxc_ParseContentURI uri =
     (if length uri = 0 then \<lparr>Homeserver = [], FileID = []\<rparr>
      else if take 6 uri \<noteq> ''mxc://'' then \<lparr>Homeserver = [], FileID = []\<rparr>
      else let rest = drop 6 uri;
               index = length (takeWhile (\<lambda>c. c \<noteq> CHR ''/'') rest)
           in if index = length rest \<or> index + 1 = length rest
              then \<lparr>Homeserver = [], FileID = []\<rparr>
              else \<lparr>Homeserver = take index rest, FileID = drop (index + 1) rest\<rparr>)"

definition mxc_lib :: uri_lib where
  "mxc_lib = \<lparr>uri_String = ContentURI_String, ParseContentURI = mxc_ParseContentURI\<rparr>"

section \<open>The puppet table\<close>

text \<open>
  A row of the table \<open>puppet\<close> gives every column an SQL value. The queries of
  \<open>puppet.go\<close> name their columns in different orders, so the columns are kept by name
  and each query carries its own column list, as in the source text of the query.
\<close>

datatype sql_value = SQL_NULL | SQL_Text string | SQL_Int int64 | SQL_Bool bool

datatype puppet_column =
    col_username | col_avatar | col_avatar_url | col_avatar_set | col_displayname
  | col_name_quality | col_name_set | col_contact_info_set | col_last_sync
  | col_custom_mxid | col_access_token | col_next_batch | col_enable_presence
  | col_enable_receipts | col_first_activity_ts | col_last_activity_ts

type_synonym puppet_row = "puppet_column \<Rightarrow> sql_value"

type_synonym puppet_table = "string \<rightharpoonup> puppet_row"

datatype db_error = ConnectionError | UniqueViolation | NotNullViolation | BadArguments | ScanError

datatype log_entry = Log_Debug string | Log_Warn string

text \<open>
  The column defaults of the schema: \<open>enable_presence\<close> and \<open>enable_receipts\<close> default to
  true, every other column a statement does not set is NULL.
\<close>

definition default_row :: puppet_row where
  "default_row c =
     (if c = col_enable_presence \<or> c = col_enable_receipts then SQL_Bool True else SQL_NULL)"

fun assign_columns :: "puppet_column list \<Rightarrow> sql_value list \<Rightarrow> puppet_row \<Rightarrow> puppet_row" where
  "assign_columns (c # cs) (v # vs) r = assign_columns cs vs (r(c := v))"
| "assign_columns _ _ r = r"

text \<open>The three statements that \<open>Insert\<close> and \<open>UpdateActivityTs\<close> execute.\<close>

datatype statement =
    INSERT_INTO_puppet "puppet_column list"
  | UPDATE_last_activity_ts
  | UPDATE_first_activity_ts_if_NULL

definition getAllPuppetsQuery :: "puppet_column list" where
  "getAllPuppetsQuery =
     [col_username, col_avatar, col_avatar_url, col_displayname, col_name_quality, col_name_set,
      col_avatar_set, col_contact_info_set, col_last_sync, col_custom_mxid, col_access_token,
      col_next_batch, col_enable_presence, col_enable_receipts, col_first_activity_ts,
      col_last_activity_ts]"

definition insertPuppetQuery :: statement where
  "insertPuppetQuery = INSERT_INTO_puppet
     [col_username, col_avatar, col_avatar_url, col_avatar_set, col_displayname,
      col_name_quality, col_name_set, col_contact_info_set, col_last_sync, col_custom_mxid,
      col_access_token, col_next_batch, col_enable_presence, col_enable_receipts]"

text \<open>
  \<open>qh.Exec\<close>: the first argument is the failure the driver reports for this call, if any
  (a lost connection, say); a failed statement changes nothing. \<open>username\<close> is the
  primary key: an insert of a key that is present fails. An update of an absent key
  succeeds and touches no row.
\<close>

fun Exec ::
  "db_error option \<Rightarrow> statement \<Rightarrow> sql_value list \<Rightarrow> puppet_table \<Rightarrow> db_error option \<times> puppet_table"
where
  "Exec (Some e) _ _ tbl = (Some e, tbl)"
| "Exec None (INSERT_INTO_puppet cols) args tbl =
     (if length args \<noteq> length cols then (Some BadArguments, tbl)
      else let r = assign_columns cols args default_row in
        (case r col_username of
           SQL_Text u \<Rightarrow>
             (if u \<in> dom tbl then (Some UniqueViolation, tbl) else (None, tbl(u \<mapsto> r)))
         | _ \<Rightarrow> (Some NotNullViolation, tbl)))"
| "Exec None UPDATE_last_activity_ts [v, SQL_Text u] tbl =
     (case tbl u of
        None \<Rightarrow> (None, tbl)
      | Some r \<Rightarrow> (None, tbl(u \<mapsto> r(col_last_activity_ts := v))))"
| "Exec None UPDATE_first_activity_ts_if_NULL [v, SQL_Text u] tbl =
     (case tbl u of
        None \<Rightarrow> (None, tbl)
      | Some r \<Rightarrow>
          (if r col_first_activity_ts = SQL_NULL
           then (None, tbl(u \<mapsto> r(col_first_activity_ts := v)))
           else (None, tbl)))"
| "Exec None _ _ tbl = (Some BadArguments, tbl)"

section \<open>database/puppet.go\<close>

record Puppet =
  JID :: JID
  Avatar :: string
  AvatarURL :: ContentURI
  AvatarSet :: bool
  Displayname :: string
  NameQuality :: int8
  NameSet :: bool
  ContactInfoSet :: bool
  LastSync :: Time
  CustomMXID :: string
  AccessToken :: string
  NextBatch :: string
  EnablePresence :: bool
  EnableReceipts :: bool
  FirstActivityTs :: int64
  LastActivityTs :: int64

definition newPuppet :: Puppet where
  "newPuppet =
     \<lparr>JID = \<lparr>User = [], RawAgent = 0, Device = 0, Integrator = 0, Server = []\<rparr>,
      Avatar = [], AvatarURL = \<lparr>Homeserver = [], FileID = []\<rparr>, AvatarSet = False,
      Displayname = [], NameQuality = 0, NameSet = False, ContactInfoSet = False,
      LastSync = zeroTime, CustomMXID = [], AccessToken = [], NextBatch = [],
      EnablePresence = True, EnableReceipts = True,
      FirstActivityTs = 0, LastActivityTs = 0\<rparr>"

text \<open>
  \<open>UpdateActivityTs\<close>. The two arguments \<open>fault1\<close> and \<open>fault2\<close> are what the driver
  reports for the first and the second \<open>Exec\<close>. The result is the puppet in memory, the
  table and the lines logged.
\<close>

definition UpdateActivityTs ::
  "db_error option \<Rightarrow> db_error option \<Rightarrow> Puppet \<Rightarrow> int64 \<Rightarrow> puppet_table
     \<Rightarrow> Puppet \<times> puppet_table \<times> log_entry list"
where
  "UpdateActivityTs fault1 fault2 puppet activityTs tbl =
     (if activityTs <s LastActivityTs puppet then (puppet, tbl, [])
      else
        let puppet1 = puppet\<lparr>LastActivityTs := activityTs\<rparr>;
            (err1, tbl1) = Exec fault1 UPDATE_last_activity_ts
                             [SQL_Int (LastActivityTs puppet1), SQL_Text (User (JID puppet1))] tbl;
            log1 = Log_Debug ''Updating activity time'' #
                     (case err1 of
                        Some e \<Rightarrow> [Log_Warn ''Failed to update last_activity_ts'']
                      | None \<Rightarrow> [])
        in if FirstActivityTs puppet1 = 0 then
             let puppet2 = puppet1\<lparr>FirstActivityTs := activityTs\<rparr>;
                 (err2, tbl2) = Exec fault2 UPDATE_first_activity_ts_if_NULL
                                  [SQL_Int (FirstActivityTs puppet2), SQL_Text (User (JID puppet2))]
                                  tbl1;
                 log2 = (case err2 of
                           Some e \<Rightarrow> [Log_Warn ''Failed to update first_activity_ts'']
                         | None \<Rightarrow> [])
             in (puppet2, tbl2, log1 @ log2)
           else (puppet1, tbl1, log1))"

text \<open>
  A sequence of calls on one puppet, each with its timestamp and the two driver
  outcomes: the puppet and the table are threaded from call to call.
\<close>

fun UpdateActivityTs_calls ::
  "(db_error option \<times> db_error option \<times> int64) list \<Rightarrow> Puppet \<Rightarrow> puppet_table
     \<Rightarrow> Puppet \<times> puppet_table"
where
  "UpdateActivityTs_calls [] puppet tbl = (puppet, tbl)"
| "UpdateActivityTs_calls ((f1, f2, ts) # cs) puppet tbl =
     (case UpdateActivityTs f1 f2 puppet ts tbl of
        (puppet', tbl', _) \<Rightarrow> UpdateActivityTs_calls cs puppet' tbl')"

text \<open>
  \<open>sqlVariables\<close>: the fourteen arguments of the insert, in the order of the source.
  The driver stores the \<open>int8\<close> name quality as a 64-bit integer (sign-extended).
\<close>

definition sqlVariables :: "uri_lib \<Rightarrow> Puppet \<Rightarrow> sql_value list" where
  "sqlVariables lib puppet =
     (let lastSyncTS = (if \<not> IsZero (LastSync puppet) then Unix (LastSync puppet) else 0)
      in [SQL_Text (User (JID puppet)), SQL_Text (Avatar puppet),
          SQL_Text (uri_String lib (AvatarURL puppet)), SQL_Bool (AvatarSet puppet),
          SQL_Text (Displayname puppet),
          SQL_Int (scast (NameQuality puppet)), SQL_Bool (NameSet puppet),
          SQL_Bool (ContactInfoSet puppet), SQL_Int lastSyncTS,
          SQL_Text (CustomMXID puppet), SQL_Text (AccessToken puppet), SQL_Text (NextBatch puppet),
          SQL_Bool (EnablePresence puppet), SQL_Bool (EnableReceipts puppet)])"

text \<open>The row that \<open>insertPuppetQuery\<close> builds from the arguments of a puppet.\<close>

definition inserted_row :: "uri_lib \<Rightarrow> Puppet \<Rightarrow> puppet_row" where
  "inserted_row lib puppet =
     (case insertPuppetQuery of
        INSERT_INTO_puppet cols \<Rightarrow> assign_columns cols (sqlVariables lib puppet) default_row
      | _ \<Rightarrow> default_row)"

text \<open>
  \<open>Insert\<close> returns the error of the call (\<open>None\<close> is Go's \<open>nil\<close>), the table and the
  lines logged.
\<close>

definition Insert ::
  "uri_lib \<Rightarrow> db_error option \<Rightarrow> Puppet \<Rightarrow> puppet_table
     \<Rightarrow> db_error option \<times> puppet_table \<times> log_entry list"
where
  "Insert lib fault puppet tbl =
     (if Server (JID puppet) \<noteq> DefaultUserServer
      then (None, tbl, [Log_Warn ''Not inserting puppet: not a user''])
      else (case Exec fault insertPuppetQuery (sqlVariables lib puppet) tbl of
              (err, tbl') \<Rightarrow> (err, tbl', [])))"

text \<open>
  The destinations of \<open>row.Scan\<close>: a plain \<open>string\<close> for the user name, and
  \<open>sql.NullString\<close>, \<open>sql.NullInt64\<close>, \<open>sql.NullBool\<close> for the rest, of which \<open>Scan\<close>
  reads the value field only (the zero value when the column is NULL). The columns of the
  table are typed, so a value of another type does not reach a destination; the model
  reports \<open>ScanError\<close> for it.
\<close>

fun scans_string :: "sql_value \<Rightarrow> bool" where
  "scans_string (SQL_Text s) = True"
| "scans_string _ = False"

fun scans_NullString :: "sql_value \<Rightarrow> bool" where
  "scans_NullString SQL_NULL = True"
| "scans_NullString (SQL_Text s) = True"
| "scans_NullString _ = False"

fun scans_NullInt64 :: "sql_value \<Rightarrow> bool" where
  "scans_NullInt64 SQL_NULL = True"
| "scans_NullInt64 (SQL_Int i) = True"
| "scans_NullInt64 _ = False"

fun scans_NullBool :: "sql_value \<Rightarrow> bool" where
  "scans_NullBool SQL_NULL = True"
| "scans_NullBool (SQL_Bool b) = True"
| "scans_NullBool _ = False"

fun NullString_String :: "sql_value \<Rightarrow> string" where
  "NullString_String (SQL_Text s) = s"
| "NullString_String _ = []"

fun NullInt64_Int64 :: "sql_value \<Rightarrow> int64" where
  "NullInt64_Int64 (SQL_Int i) = i"
| "NullInt64_Int64 _ = 0"

fun NullBool_Bool :: "sql_value \<Rightarrow> bool" where
  "NullBool_Bool (SQL_Bool b) = b"
| "NullBool_Bool _ = False"

text \<open>
  \<open>Scan\<close> on the sixteen values of a row, in the order of \<open>getAllPuppetsQuery\<close>. It writes
  into the puppet it is called on: \<open>LastSync\<close> keeps its old value unless the column is
  positive. \<open>int8(quality.Int64)\<close> keeps the low eight bits.
\<close>

fun Scan_values :: "uri_lib \<Rightarrow> Puppet \<Rightarrow> sql_value list \<Rightarrow> db_error + Puppet" where
  "Scan_values lib puppet
     [username, avatar, avatarURL, displayname, quality, nameSet, avatarSet, contactInfoSet,
      lastSync, customMXID, accessToken, nextBatch, enablePresence, enableReceipts,
      firstActivityTs, lastActivityTs] =
     (if scans_string username \<and> scans_NullString avatar \<and> scans_NullString avatarURL
         \<and> scans_NullString displayname \<and> scans_NullInt64 quality \<and> scans_NullBool nameSet
         \<and> scans_NullBool avatarSet \<and> scans_NullBool contactInfoSet \<and> scans_NullInt64 lastSync
         \<and> scans_NullString customMXID \<and> scans_NullString accessToken
         \<and> scans_NullString nextBatch \<and> scans_NullBool enablePresence
         \<and> scans_NullBool enableReceipts \<and> scans_NullInt64 firstActivityTs
         \<and> scans_NullInt64 lastActivityTs
      then Inr (puppet
        \<lparr>JID := NewJID (NullString_String username) DefaultUserServer,
         Displayname := NullString_String displayname,
         Avatar := NullString_String avatar,
         AvatarURL := ParseContentURI lib (NullString_String avatarURL),
         NameQuality := ucast (NullInt64_Int64 quality),
         NameSet := NullBool_Bool nameSet,
         AvatarSet := NullBool_Bool avatarSet,
         ContactInfoSet := NullBool_Bool contactInfoSet,
         LastSync := (if 0 <s NullInt64_Int64 lastSync
                      then time_Unix (NullInt64_Int64 lastSync) 0 else LastSync puppet),
         CustomMXID := NullString_String customMXID,
         AccessToken := NullString_String accessToken,
         NextBatch := NullString_String nextBatch,
         EnablePresence := NullBool_Bool enablePresence,
         EnableReceipts := NullBool_Bool enableReceipts,
         FirstActivityTs := NullInt64_Int64 firstActivityTs,
         LastActivityTs := NullInt64_Int64 lastActivityTs\<rparr>)
      else Inl ScanError)"
| "Scan_values lib puppet _ = Inl ScanError"

text \<open>The row handed to \<open>Scan\<close> is an error of the query or the values of a row.\<close>

definition Scan :: "uri_lib \<Rightarrow> Puppet \<Rightarrow> db_error + sql_value list \<Rightarrow> db_error + Puppet" where
  "Scan lib puppet row =
     (case row of Inl err \<Rightarrow> Inl err | Inr vals \<Rightarrow> Scan_values lib puppet vals)"

text \<open>
  \<open>Get\<close> runs \<open>getPuppetByJIDQuery\<close> with \<open>jid.User\<close>. The query helper answers no row
  with \<open>nil, nil\<close> (here \<open>Inr None\<close>) and scans a row into a new puppet.
\<close>

definition Get :: "uri_lib \<Rightarrow> db_error option \<Rightarrow> puppet_table \<Rightarrow> JID \<Rightarrow> db_error + Puppet option" where
  "Get lib fault tbl jid =
     (case fault of
        Some err \<Rightarrow> Inl err
      | None \<Rightarrow>
          (case tbl (User jid) of
             None \<Rightarrow> Inr None
           | Some r \<Rightarrow>
               (case Scan lib newPuppet (Inr (map r getAllPuppetsQuery)) of
                  Inl err \<Rightarrow> Inl err
                | Inr puppet \<Rightarrow> Inr (Some puppet))))"

section \<open>The bridge: active puppet count and start of the users\<close>

text \<open>
  \<open>Config.Limits\<close>. Its declaration is outside the sources at hand; \<open>MaxPuppetLimit\<close> is
  compared with a \<open>uint\<close>, and the two day counts are multiplied by \<open>ONE_DAY_S\<close> and
  converted to \<open>int64\<close>, which for a 64-bit integer type, signed or not, is the
  product modulo \<open>2 ^ 64\<close>.
\<close>

record Limits =
  MaxPuppetLimit :: uint
  MinPuppetActiveDays :: "64 word"
  PuppetInactivityDays :: "64 word"
  BlockOnLimitReached :: bool

definition ONE_DAY_S :: "64 word" where
  "ONE_DAY_S = 24 * 60 * 60"

record PuppetActivity =
  currentUserCount :: uint
  isBlocked :: bool

text \<open>
  One turn of the loop over the rows of
  \<open>SELECT first_activity_ts, last_activity_ts FROM puppet WHERE first_activity_ts is not NULL\<close>:
  the two columns of the row and the reading of \<open>time.Now().Unix()\<close> taken in that turn.
  \<open>last_activity_ts\<close> may be NULL; then \<open>rows.Scan\<close> fails after it has stored the first
  column, its error is dropped, and \<open>lastActivityTs\<close> keeps the value of the turn before.
\<close>

record activity_row =
  now_unix :: int64
  first_activity_ts :: int64
  last_activity_ts :: "int64 option"

text \<open>A turn whose row has both columns: the clock reading, the first and the last activity.\<close>

definition scanned :: "int64 \<times> int64 \<times> int64 \<Rightarrow> activity_row" where
  "scanned t =
     (case t of (n, f, l) \<Rightarrow> \<lparr>now_unix = n, first_activity_ts = f, last_activity_ts = Some l\<rparr>)"

fun rows_loop ::
  "int64 \<Rightarrow> int64 \<Rightarrow> activity_row list \<Rightarrow> uint \<times> int64 \<times> int64 \<Rightarrow> uint \<times> int64 \<times> int64"
where
  "rows_loop minActivityTime maxActivityTime [] vars = vars"
| "rows_loop minActivityTime maxActivityTime (row # rows)
     (activePuppetCount, firstActivityTs, lastActivityTs) =
     (let firstActivityTs' = first_activity_ts row;
          lastActivityTs' = (case last_activity_ts row of Some l \<Rightarrow> l | None \<Rightarrow> lastActivityTs);
          secondsOfActivity = lastActivityTs' - firstActivityTs';
          isInactive = maxActivityTime <s now_unix row - lastActivityTs'
      in rows_loop minActivityTime maxActivityTime rows
           (if \<not> isInactive \<and> minActivityTime <s secondsOfActivity
                \<and> secondsOfActivity <s maxActivityTime
            then activePuppetCount + 1 else activePuppetCount,
            firstActivityTs', lastActivityTs'))"

text \<open>
  What a run of \<open>UpdateActivePuppetCount\<close> does, in order: the lines it logs and the
  fields of \<open>PuppetActivity\<close> it assigns. The query is an error or the rows it yields.
\<close>

datatype bridge_effect =
    Debugfln string
  | Warnln string
  | Assign_isBlocked bool
  | Assign_currentUserCount uint

definition minActivityTime :: "Limits \<Rightarrow> int64" where
  "minActivityTime limits = ONE_DAY_S * MinPuppetActiveDays limits"

definition maxActivityTime :: "Limits \<Rightarrow> int64" where
  "maxActivityTime limits = ONE_DAY_S * PuppetInactivityDays limits"

definition UpdateActivePuppetCount_effects ::
  "Limits \<Rightarrow> db_error + activity_row list \<Rightarrow> bridge_effect list"
where
  "UpdateActivePuppetCount_effects limits query =
     Debugfln ''Updating active puppet count'' #
     (case query of
        Inl active_err \<Rightarrow> [Warnln ''Failed to scan number of active puppets:'']
      | Inr rows \<Rightarrow>
          (case rows_loop (minActivityTime limits) (maxActivityTime limits) rows (0, 0, 0) of
             (activePuppetCount, _, _) \<Rightarrow>
               (if BlockOnLimitReached limits
                then [Assign_isBlocked (MaxPuppetLimit limits < activePuppetCount)] else [])
               @ [Debugfln ''Current active puppet count is %d (max %d)'',
                  Assign_currentUserCount activePuppetCount]))"

fun perform :: "PuppetActivity \<Rightarrow> bridge_effect \<Rightarrow> PuppetActivity" where
  "perform pa (Assign_isBlocked b) = pa\<lparr>isBlocked := b\<rparr>"
| "perform pa (Assign_currentUserCount n) = pa\<lparr>currentUserCount := n\<rparr>"
| "perform pa _ = pa"

text \<open>Which of the two fields of the snapshot a run assigns.\<close>

fun is_Assign_isBlocked :: "bridge_effect \<Rightarrow> bool" where
  "is_Assign_isBlocked (Assign_isBlocked b) = True"
| "is_Assign_isBlocked _ = False"

fun is_Assign_currentUserCount :: "bridge_effect \<Rightarrow> bool" where
  "is_Assign_currentUserCount (Assign_currentUserCount n) = True"
| "is_Assign_currentUserCount _ = False"

definition assigns_isBlocked :: "bridge_effect list \<Rightarrow> bool" where
  "assigns_isBlocked effects = list_ex is_Assign_isBlocked effects"

definition assigns_currentUserCount :: "bridge_effect list \<Rightarrow> bool" where
  "assigns_currentUserCount effects = list_ex is_Assign_currentUserCount effects"

definition UpdateActivePuppetCount ::
  "Limits \<Rightarrow> db_error + activity_row list \<Rightarrow> PuppetActivity \<Rightarrow> PuppetActivity"
where
  "UpdateActivePuppetCount limits query pa =
     foldl perform pa (UpdateActivePuppetCount_effects limits query)"

text \<open>
  \<open>StartUsers\<close>: the users are those of \<open>GetAllUsers\<close>, the puppets those of
  \<open>GetAllPuppetsWithCustomMXID\<close>. Each \<open>go\<close> statement is recorded as the task it starts.
\<close>

record BridgeUser =
  MXID :: string
  User_JID :: JID

datatype start_effect =
    Debugln string
  | Go_Connect BridgeUser
  | SendGlobalBridgeState_Unconfigured
  | Go_StartCustomMXID Puppet

fun users_loop :: "BridgeUser list \<Rightarrow> bool \<Rightarrow> start_effect list \<times> bool" where
  "users_loop [] foundAnySessions = ([], foundAnySessions)"
| "users_loop (user # users) foundAnySessions =
     (case users_loop users (if \<not> IsEmpty (User_JID user) then True else foundAnySessions) of
        (started, found) \<Rightarrow> (Go_Connect user # started, found))"

definition StartUsers :: "BridgeUser list \<Rightarrow> Puppet list \<Rightarrow> start_effect list" where
  "StartUsers users puppets =
     (case users_loop users False of
        (started, foundAnySessions) \<Rightarrow>
          Debugln ''Starting users'' # started
          @ (if \<not> foundAnySessions then [SendGlobalBridgeState_Unconfigured] else [])
          @ Debugln ''Starting custom puppets'' # map Go_StartCustomMXID puppets)"

section \<open>Properties of \<open>UpdateActivityTs\<close>\<close>

lemma UpdateActivityTs_puppet:
  "fst (UpdateActivityTs f1 f2 p ts tbl) =
     (if ts <s LastActivityTs p then p
      else p\<lparr>LastActivityTs := ts,
             FirstActivityTs := (if FirstActivityTs p = 0 then ts else FirstActivityTs p)\<rparr>)"
  by (simp add: UpdateActivityTs_def Let_def split: prod.splits)

lemma UpdateActivityTs_Last_mono:
  "LastActivityTs p \<le>s LastActivityTs (fst (UpdateActivityTs f1 f2 p ts tbl))"
  by (simp add: UpdateActivityTs_puppet signed.not_less)

lemma UpdateActivityTs_First_kept:
  "FirstActivityTs p \<noteq> 0 \<Longrightarrow>
     FirstActivityTs (fst (UpdateActivityTs f1 f2 p ts tbl)) = FirstActivityTs p"
  by (simp add: UpdateActivityTs_puppet)

lemma UpdateActivityTs_calls_Cons:
  "UpdateActivityTs_calls ((f1, f2, ts) # cs) p tbl =
     UpdateActivityTs_calls cs (fst (UpdateActivityTs f1 f2 p ts tbl))
       (fst (snd (UpdateActivityTs f1 f2 p ts tbl)))"
  by (simp split: prod.splits)

lemma calls_Last_mono:
  "LastActivityTs p \<le>s LastActivityTs (fst (UpdateActivityTs_calls cs p tbl))"
proof (induction cs arbitrary: p tbl)
  case Nil
  show ?case by simp
next
  case (Cons c cs)
  obtain f1 f2 ts where c: "c = (f1, f2, ts)" by (cases c) auto
  obtain p' tbl' lg where r: "UpdateActivityTs f1 f2 p ts tbl = (p', tbl', lg)"
    by (cases "UpdateActivityTs f1 f2 p ts tbl") auto
  have "LastActivityTs p \<le>s LastActivityTs p'"
    using UpdateActivityTs_Last_mono [of p f1 f2 ts tbl] r by simp
  moreover have "LastActivityTs p' \<le>s LastActivityTs (fst (UpdateActivityTs_calls cs p' tbl'))"
    by (rule Cons.IH)
  ultimately show ?case using c r by (simp add: signed.order_trans)
qed

lemma calls_First_kept:
  "FirstActivityTs p \<noteq> 0 \<Longrightarrow>
     FirstActivityTs (fst (UpdateActivityTs_calls cs p tbl)) = FirstActivityTs p"
proof (induction cs arbitrary: p tbl)
  case Nil
  show ?case by simp
next
  case (Cons c cs)
  obtain f1 f2 ts where c: "c = (f1, f2, ts)" by (cases c) auto
  obtain p' tbl' lg where r: "UpdateActivityTs f1 f2 p ts tbl = (p', tbl', lg)"
    by (cases "UpdateActivityTs f1 f2 p ts tbl") auto
  have k: "FirstActivityTs p' = FirstActivityTs p"
    using UpdateActivityTs_First_kept [OF Cons.prems, of f1 f2 ts tbl] r by simp
  then have "FirstActivityTs p' \<noteq> 0" using Cons.prems by simp
  then have "FirstActivityTs (fst (UpdateActivityTs_calls cs p' tbl')) = FirstActivityTs p'"
    by (rule Cons.IH)
  then show ?case using c r k by simp
qed

lemma calls_100_50_200:
  "FirstActivityTs (fst (UpdateActivityTs_calls
      [(f1, f2, 100), (g1, g2, 50), (h1, h2, 200)] newPuppet tbl)) = 100
   \<and> LastActivityTs (fst (UpdateActivityTs_calls
      [(f1, f2, 100), (g1, g2, 50), (h1, h2, 200)] newPuppet tbl)) = 200"
  by (simp only: UpdateActivityTs_calls_Cons UpdateActivityTs_calls.simps UpdateActivityTs_puppet)
    (simp add: newPuppet_def word_sless_alt)

text \<open>
  C1, as amended. A call with a timestamp strictly older than the stored
  \<open>LastActivityTs\<close> changes nothing (puppet, table and log). Every other call, a call
  with the stored timestamp included, sets \<open>LastActivityTs\<close> to the timestamp and sets
  \<open>FirstActivityTs\<close> to it when that field is still 0. Over any sequence of calls
  \<open>LastActivityTs\<close> never decreases, and a \<open>FirstActivityTs\<close> that is set stays as it is.
  On a new puppet the arrivals 100, 50, 200 end with \<open>LastActivityTs = 200\<close> and
  \<open>FirstActivityTs = 100\<close>, whatever the database answers.
\<close>

theorem UpdateActivityTs_timestamps:
  "(ts1 <s LastActivityTs p \<longrightarrow> UpdateActivityTs f1 f2 p ts1 tbl = (p, tbl, []))
   \<and> (\<not> ts2 <s LastActivityTs p \<longrightarrow>
        LastActivityTs (fst (UpdateActivityTs f1 f2 p ts2 tbl)) = ts2
        \<and> FirstActivityTs (fst (UpdateActivityTs f1 f2 p ts2 tbl)) =
            (if FirstActivityTs p = 0 then ts2 else FirstActivityTs p))
   \<and> LastActivityTs p \<le>s LastActivityTs (fst (UpdateActivityTs_calls cs p tbl))
   \<and> (FirstActivityTs p \<noteq> 0 \<longrightarrow>
        FirstActivityTs (fst (UpdateActivityTs_calls cs p tbl)) = FirstActivityTs p)
   \<and> LastActivityTs (fst (UpdateActivityTs_calls
        [(f1, f2, 100), (g1, g2, 50), (h1, h2, 200)] newPuppet tbl)) = 200
   \<and> FirstActivityTs (fst (UpdateActivityTs_calls
        [(f1, f2, 100), (g1, g2, 50), (h1, h2, 200)] newPuppet tbl)) = 100"
proof -
  have a: "ts1 <s LastActivityTs p \<longrightarrow> UpdateActivityTs f1 f2 p ts1 tbl = (p, tbl, [])"
    by (simp add: UpdateActivityTs_def)
  have b: "\<not> ts2 <s LastActivityTs p \<longrightarrow>
        LastActivityTs (fst (UpdateActivityTs f1 f2 p ts2 tbl)) = ts2
        \<and> FirstActivityTs (fst (UpdateActivityTs f1 f2 p ts2 tbl)) =
            (if FirstActivityTs p = 0 then ts2 else FirstActivityTs p)"
    by (simp add: UpdateActivityTs_puppet)
  show ?thesis
    using a b calls_Last_mono [of p cs tbl] calls_First_kept [of p cs tbl]
      calls_100_50_200 [of f1 f2 g1 g2 h1 h2 tbl]
    by blast
qed

text \<open>
  The theorem at a puppet with both timestamps 100: the call with 50 is the no-op, the
  call with 200 moves \<open>LastActivityTs\<close> and keeps \<open>FirstActivityTs\<close>, also when the second
  write fails.
\<close>

theorem UpdateActivityTs_timestamps_witness:
  "UpdateActivityTs None (Some ConnectionError)
      (newPuppet\<lparr>FirstActivityTs := 100, LastActivityTs := 100\<rparr>) 50 Map.empty
     = (newPuppet\<lparr>FirstActivityTs := 100, LastActivityTs := 100\<rparr>, Map.empty, [])
   \<and> LastActivityTs (fst (UpdateActivityTs None (Some ConnectionError)
        (newPuppet\<lparr>FirstActivityTs := 100, LastActivityTs := 100\<rparr>) 200 Map.empty)) = 200
   \<and> FirstActivityTs (fst (UpdateActivityTs None (Some ConnectionError)
        (newPuppet\<lparr>FirstActivityTs := 100, LastActivityTs := 100\<rparr>) 200 Map.empty)) = 100
   \<and> FirstActivityTs (fst (UpdateActivityTs_calls [(None, None, 7), (None, None, 300)]
        (newPuppet\<lparr>FirstActivityTs := 100, LastActivityTs := 100\<rparr>) Map.empty)) = 100"
  using UpdateActivityTs_timestamps
    [of 50 "newPuppet\<lparr>FirstActivityTs := 100, LastActivityTs := 100\<rparr>" None
        "Some ConnectionError" Map.empty 200 "[(None, None, 7), (None, None, 300)]"]
  by (simp add: newPuppet_def word_sless_alt del: UpdateActivityTs_calls.simps)

text \<open>
  C1 as it is written fails where the timestamp equals the stored one: the guard of the
  source is \<open>puppet.LastActivityTs > activityTs\<close>, so the call goes on. A puppet with
  \<open>LastActivityTs = 5\<close> and \<open>FirstActivityTs\<close> unset (as \<open>Scan\<close> yields it for a row whose
  \<open>first_activity_ts\<close> is NULL) gets \<open>FirstActivityTs = 5\<close> from the call with 5.
\<close>

theorem UpdateActivityTs_equal_ts_counterexample:
  "5 \<le>s LastActivityTs (newPuppet\<lparr>LastActivityTs := 5\<rparr>)
   \<and> FirstActivityTs (newPuppet\<lparr>LastActivityTs := 5\<rparr>) = 0
   \<and> FirstActivityTs (fst (UpdateActivityTs None None (newPuppet\<lparr>LastActivityTs := 5\<rparr>) 5
        Map.empty)) = 5"
  by (simp add: UpdateActivityTs_def newPuppet_def word_sless_alt word_sle_eq)

text \<open>
  C9. The puppet in memory after \<open>UpdateActivityTs\<close> does not depend on what the
  database answers: with a failing first write, a failing second write or both it is the
  puppet of the run where both writes succeed. When the call is not the no-op and the
  first write fails, \<open>LastActivityTs\<close> is the new timestamp, \<open>FirstActivityTs\<close> is the new
  timestamp if it was 0, the failure is in the log, and with both writes failing the table
  is untouched. The function has no error result.
\<close>

theorem UpdateActivityTs_write_failure:
  "fst (UpdateActivityTs f1 f2 p ts tbl) = fst (UpdateActivityTs None None p ts tbl)
   \<and> (\<not> ts <s LastActivityTs p \<longrightarrow>
        LastActivityTs (fst (UpdateActivityTs (Some e1) f2 p ts tbl)) = ts
        \<and> (FirstActivityTs p = 0 \<longrightarrow>
             FirstActivityTs (fst (UpdateActivityTs (Some e1) (Some e2) p ts tbl)) = ts)
        \<and> Log_Warn ''Failed to update last_activity_ts''
             \<in> set (snd (snd (UpdateActivityTs (Some e1) f2 p ts tbl)))
        \<and> (FirstActivityTs p = 0 \<longrightarrow>
             Log_Warn ''Failed to update first_activity_ts''
               \<in> set (snd (snd (UpdateActivityTs f1 (Some e2) p ts tbl))))
        \<and> fst (snd (UpdateActivityTs (Some e1) (Some e2) p ts tbl)) = tbl)"
proof -
  have a: "fst (UpdateActivityTs f1 f2 p ts tbl) = fst (UpdateActivityTs None None p ts tbl)"
    by (simp add: UpdateActivityTs_puppet)
  have b: "\<not> ts <s LastActivityTs p \<longrightarrow>
        LastActivityTs (fst (UpdateActivityTs (Some e1) f2 p ts tbl)) = ts
        \<and> (FirstActivityTs p = 0 \<longrightarrow>
             FirstActivityTs (fst (UpdateActivityTs (Some e1) (Some e2) p ts tbl)) = ts)"
    by (simp add: UpdateActivityTs_puppet)
  have c: "\<not> ts <s LastActivityTs p \<longrightarrow>
        Log_Warn ''Failed to update last_activity_ts''
          \<in> set (snd (snd (UpdateActivityTs (Some e1) f2 p ts tbl)))"
    by (simp add: UpdateActivityTs_def Let_def split: prod.splits)
  have d: "\<not> ts <s LastActivityTs p \<longrightarrow> FirstActivityTs p = 0 \<longrightarrow>
        Log_Warn ''Failed to update first_activity_ts''
          \<in> set (snd (snd (UpdateActivityTs f1 (Some e2) p ts tbl)))"
    by (simp add: UpdateActivityTs_def Let_def split: prod.splits)
  have e: "fst (snd (UpdateActivityTs (Some e1) (Some e2) p ts tbl)) = tbl"
    by (simp add: UpdateActivityTs_def Let_def)
  show ?thesis using a b c d e by blast
qed

text \<open>
  The theorem at a new puppet, the timestamp 100 and a lost connection on both writes:
  both fields are 100 in memory, both failures are logged, the table stays empty.
\<close>

theorem UpdateActivityTs_write_failure_witness:
  "\<not> 100 <s LastActivityTs newPuppet \<and> FirstActivityTs newPuppet = 0
   \<and> LastActivityTs (fst (UpdateActivityTs (Some ConnectionError) (Some ConnectionError)
        newPuppet 100 Map.empty)) = 100
   \<and> FirstActivityTs (fst (UpdateActivityTs (Some ConnectionError) (Some ConnectionError)
        newPuppet 100 Map.empty)) = 100
   \<and> Log_Warn ''Failed to update last_activity_ts''
        \<in> set (snd (snd (UpdateActivityTs (Some ConnectionError) (Some ConnectionError)
             newPuppet 100 Map.empty)))
   \<and> Log_Warn ''Failed to update first_activity_ts''
        \<in> set (snd (snd (UpdateActivityTs (Some ConnectionError) (Some ConnectionError)
             newPuppet 100 Map.empty)))
   \<and> fst (snd (UpdateActivityTs (Some ConnectionError) (Some ConnectionError)
        newPuppet 100 Map.empty)) = Map.empty"
proof -
  have h: "\<not> 100 <s LastActivityTs newPuppet" "FirstActivityTs newPuppet = 0"
    by (simp_all add: newPuppet_def word_sless_alt)
  show ?thesis
    using h UpdateActivityTs_write_failure
      [of "Some ConnectionError" "Some ConnectionError" newPuppet 100 Map.empty
          ConnectionError ConnectionError]
    by blast
qed

section \<open>Properties of \<open>UpdateActivePuppetCount\<close>\<close>

lemma rows_loop_count:
  "fst (rows_loop minT maxT (map scanned table) (c, f0, l0)) =
     c + of_nat (length (filter
           (\<lambda>(n, f, l). \<not> maxT <s n - l \<and> minT <s l - f \<and> l - f <s maxT) table))"
proof (induction table arbitrary: c f0 l0)
  case Nil
  show ?case by simp
next
  case (Cons t table)
  obtain n f l where t: "t = (n, f, l)" by (cases t) auto
  show ?case using Cons.IH by (simp add: t Let_def scanned_def)
qed

text \<open>
  A row whose \<open>last_activity_ts\<close> is NULL is judged with the value the variable holds
  from the turn before.
\<close>

lemma rows_loop_NULL_last:
  "rows_loop minT maxT
     (\<lparr>now_unix = n, first_activity_ts = f, last_activity_ts = None\<rparr> # rows) (c, f0, l0) =
   rows_loop minT maxT
     (\<lparr>now_unix = n, first_activity_ts = f, last_activity_ts = Some l0\<rparr> # rows) (c, f0, l0)"
  by (simp add: Let_def)

lemma effects_Inr:
  "UpdateActivePuppetCount_effects limits (Inr rows) =
     Debugfln ''Updating active puppet count'' #
     (if BlockOnLimitReached limits
      then [Assign_isBlocked (MaxPuppetLimit limits
              < fst (rows_loop (minActivityTime limits) (maxActivityTime limits) rows (0, 0, 0)))]
      else [])
     @ [Debugfln ''Current active puppet count is %d (max %d)'',
        Assign_currentUserCount
          (fst (rows_loop (minActivityTime limits) (maxActivityTime limits) rows (0, 0, 0)))]"
  by (simp add: UpdateActivePuppetCount_effects_def split: prod.splits)

lemma effects_Inl:
  "UpdateActivePuppetCount_effects limits (Inl e) =
     [Debugfln ''Updating active puppet count'',
      Warnln ''Failed to scan number of active puppets:'']"
  by (simp add: UpdateActivePuppetCount_effects_def)

lemma run_Inr:
  "UpdateActivePuppetCount limits (Inr rows) pa =
     pa\<lparr>isBlocked :=
           (if BlockOnLimitReached limits
            then MaxPuppetLimit limits
                   < fst (rows_loop (minActivityTime limits) (maxActivityTime limits) rows (0, 0, 0))
            else isBlocked pa),
        currentUserCount :=
           fst (rows_loop (minActivityTime limits) (maxActivityTime limits) rows (0, 0, 0))\<rparr>"
  by (simp add: UpdateActivePuppetCount_def effects_Inr)


lemma count_is_number_of_active:
  "currentUserCount (UpdateActivePuppetCount limits (Inr (map scanned table)) pa) =
     of_nat (length (filter
       (\<lambda>(n, f, l). \<not> maxActivityTime limits <s n - l
                    \<and> minActivityTime limits <s l - f
                    \<and> l - f <s maxActivityTime limits) table))"
  by (simp add: run_Inr rows_loop_count)

lemma unat_count:
  fixes table :: "'a list"
  assumes "length table < 2 ^ 64"
  shows "unat (of_nat (length (filter P table)) :: 64 word) = length (filter P table)"
proof -
  have "length (filter P table) \<le> length table" by simp
  then have "length (filter P table) < 2 ^ 64" using assms by linarith
  then show ?thesis by (simp add: unat_of_nat)
qed

lemma long_inactive_excluded:
  "maxT <s 2 * maxT \<Longrightarrow>
     fst (rows_loop minT maxT [scanned (2 * maxT, 0, 0)] (0, 0, 0)) = 0"
  by (simp add: Let_def scanned_def)

lemma just_over_minimum_included:
  "\<not> maxT <s n - (10 + minT + 1) \<Longrightarrow> minT <s minT + 1 \<Longrightarrow> minT + 1 <s maxT \<Longrightarrow>
     fst (rows_loop minT maxT [scanned (n, 10, 10 + minT + 1)] (0, 0, 0)) = 1"
  by (simp add: Let_def scanned_def add.commute)

lemma span_over_window_excluded:
  "\<not> maxT + 10 <s maxT \<Longrightarrow>
     fst (rows_loop minT maxT [scanned (n, 10, 10 + maxT + 10)] (0, 0, 0)) = 0"
  by (simp add: Let_def scanned_def add.commute)

text \<open>
  The count on a table whose rows have both columns. The rows of the query are the
  puppets whose \<open>first_activity_ts\<close> is not NULL. When every row also has a
  \<open>last_activity_ts\<close>, the count that \<open>UpdateActivePuppetCount\<close> stores is the number
  of rows that are not inactive (\<open>now - last\<close> does not exceed \<open>maxActivityTime\<close>) and
  whose \<open>last - first\<close> lies strictly between \<open>minActivityTime\<close> and
  \<open>maxActivityTime\<close>; the arithmetic and the comparisons are those of \<open>int64\<close>, the
  count is a \<open>uint\<close>, exact below \<open>2 ^ 64\<close> rows. The three puppets of the specification:
  \<open>first = 0, last = 0, now - last\<close> twice the window is not counted, being inactive;
  \<open>first = 10, last = 10 + minActivityTime + 1\<close>, recently active, is counted when that
  span is below the window; \<open>first = 10, last = 10 + maxActivityTime + 10\<close> is not counted.
  The hypotheses of the three say that the sums do not overflow and what recent means.
\<close>

theorem UpdateActivePuppetCount_counts_active:
  "currentUserCount (UpdateActivePuppetCount limits (Inr (map scanned table)) pa) =
     of_nat (length (filter
       (\<lambda>(n, f, l). \<not> maxActivityTime limits <s n - l
                    \<and> minActivityTime limits <s l - f
                    \<and> l - f <s maxActivityTime limits) table))
   \<and> (length table < 2 ^ 64 \<longrightarrow>
        unat (currentUserCount (UpdateActivePuppetCount limits (Inr (map scanned table)) pa)) =
          length (filter
            (\<lambda>(n, f, l). \<not> maxActivityTime limits <s n - l
                         \<and> minActivityTime limits <s l - f
                         \<and> l - f <s maxActivityTime limits) table))
   \<and> (maxActivityTime limits <s 2 * maxActivityTime limits \<longrightarrow>
        currentUserCount (UpdateActivePuppetCount limits
          (Inr [scanned (2 * maxActivityTime limits, 0, 0)]) pa) = 0)
   \<and> (\<not> maxActivityTime limits <s n2 - (10 + minActivityTime limits + 1)
        \<and> minActivityTime limits <s minActivityTime limits + 1
        \<and> minActivityTime limits + 1 <s maxActivityTime limits \<longrightarrow>
        currentUserCount (UpdateActivePuppetCount limits
          (Inr [scanned (n2, 10, 10 + minActivityTime limits + 1)]) pa) = 1)
   \<and> (\<not> maxActivityTime limits + 10 <s maxActivityTime limits \<longrightarrow>
        currentUserCount (UpdateActivePuppetCount limits
          (Inr [scanned (n3, 10, 10 + maxActivityTime limits + 10)]) pa) = 0)"
proof -
  have a: "length table < 2 ^ 64 \<longrightarrow>
        unat (currentUserCount (UpdateActivePuppetCount limits (Inr (map scanned table)) pa)) =
          length (filter
            (\<lambda>(n, f, l). \<not> maxActivityTime limits <s n - l
                         \<and> minActivityTime limits <s l - f
                         \<and> l - f <s maxActivityTime limits) table)"
    by (simp only: count_is_number_of_active) (simp add: unat_count)
  have b: "maxActivityTime limits <s 2 * maxActivityTime limits \<longrightarrow>
        currentUserCount (UpdateActivePuppetCount limits
          (Inr [scanned (2 * maxActivityTime limits, 0, 0)]) pa) = 0"
    by (simp add: run_Inr long_inactive_excluded del: rows_loop.simps)
  have c: "\<not> maxActivityTime limits <s n2 - (10 + minActivityTime limits + 1)
        \<and> minActivityTime limits <s minActivityTime limits + 1
        \<and> minActivityTime limits + 1 <s maxActivityTime limits \<longrightarrow>
        currentUserCount (UpdateActivePuppetCount limits
          (Inr [scanned (n2, 10, 10 + minActivityTime limits + 1)]) pa) = 1"
    using just_over_minimum_included [of "maxActivityTime limits" n2 "minActivityTime limits"]
    by (simp add: run_Inr del: rows_loop.simps)
  have d: "\<not> maxActivityTime limits + 10 <s maxActivityTime limits \<longrightarrow>
        currentUserCount (UpdateActivePuppetCount limits
          (Inr [scanned (n3, 10, 10 + maxActivityTime limits + 10)]) pa) = 0"
    using span_over_window_excluded [of "maxActivityTime limits" "minActivityTime limits" n3]
    by (simp add: run_Inr del: rows_loop.simps)
  show ?thesis using count_is_number_of_active [of limits table pa] a b c d by blast
qed

text \<open>
  The theorem at a minimum of one day and a window of thirty days, with the three puppets
  in one table: the second alone is counted.
\<close>

theorem UpdateActivePuppetCount_counts_active_witness:
  "maxActivityTime \<lparr>MaxPuppetLimit = 5, MinPuppetActiveDays = 1, PuppetInactivityDays = 30,
      BlockOnLimitReached = True\<rparr> = 2592000
   \<and> minActivityTime \<lparr>MaxPuppetLimit = 5, MinPuppetActiveDays = 1, PuppetInactivityDays = 30,
      BlockOnLimitReached = True\<rparr> = 86400
   \<and> unat (currentUserCount (UpdateActivePuppetCount
        \<lparr>MaxPuppetLimit = 5, MinPuppetActiveDays = 1, PuppetInactivityDays = 30,
          BlockOnLimitReached = True\<rparr>
        (Inr (map scanned [(5184000, 0, 0), (86500, 10, 86411), (2592100, 10, 2592020)]))
        \<lparr>currentUserCount = 0, isBlocked = False\<rparr>)) = 1
   \<and> currentUserCount (UpdateActivePuppetCount
        \<lparr>MaxPuppetLimit = 5, MinPuppetActiveDays = 1, PuppetInactivityDays = 30,
          BlockOnLimitReached = True\<rparr>
        (Inr [scanned (5184000, 0, 0)]) \<lparr>currentUserCount = 0, isBlocked = False\<rparr>) = 0
   \<and> currentUserCount (UpdateActivePuppetCount
        \<lparr>MaxPuppetLimit = 5, MinPuppetActiveDays = 1, PuppetInactivityDays = 30,
          BlockOnLimitReached = True\<rparr>
        (Inr [scanned (86500, 10, 86411)]) \<lparr>currentUserCount = 0, isBlocked = False\<rparr>) = 1
   \<and> currentUserCount (UpdateActivePuppetCount
        \<lparr>MaxPuppetLimit = 5, MinPuppetActiveDays = 1, PuppetInactivityDays = 30,
          BlockOnLimitReached = True\<rparr>
        (Inr [scanned (2592100, 10, 2592020)]) \<lparr>currentUserCount = 0, isBlocked = False\<rparr>) = 0"
  using UpdateActivePuppetCount_counts_active
    [of "\<lparr>MaxPuppetLimit = 5, MinPuppetActiveDays = 1, PuppetInactivityDays = 30,
           BlockOnLimitReached = True\<rparr>"
        "[(5184000, 0, 0), (86500, 10, 86411), (2592100, 10, 2592020)]"
        "\<lparr>currentUserCount = 0, isBlocked = False\<rparr>" 86500 2592100]
  by (simp add: maxActivityTime_def minActivityTime_def ONE_DAY_S_def word_sless_alt)

text \<open>
  How a row with a NULL \<open>last_activity_ts\<close> comes to be: the first activity of a puppet
  whose row exists, with the write of \<open>last_activity_ts\<close> failing and the write of
  \<open>first_activity_ts\<close> succeeding. The failure is logged and the row is left with
  \<open>first_activity_ts = 5\<close> and no \<open>last_activity_ts\<close>.
\<close>

lemma UpdateActivityTs_leaves_NULL_last:
  "map (the (fst (snd (UpdateActivityTs (Some ConnectionError) None
          (newPuppet\<lparr>JID := NewJID ''4915112345'' DefaultUserServer\<rparr>) 5
          [''4915112345'' \<mapsto> default_row(col_username := SQL_Text ''4915112345'')]))
        ''4915112345''))
     [col_first_activity_ts, col_last_activity_ts]
   = [SQL_Int 5, SQL_NULL]"
  by (simp add: UpdateActivityTs_def newPuppet_def NewJID_def default_row_def word_sless_alt)

text \<open>
  C2. The count is meant to be the number of puppets that have a first activity, are not
  inactive and whose span of activity lies strictly between the minimum and the window.
  The code departs from it on a row whose \<open>last_activity_ts\<close> is NULL: \<open>rows.Scan\<close>
  fails on that column, its error is dropped, and the row is judged with the
  \<open>last_activity_ts\<close> of the row before it. At a minimum of one day and a window of
  thirty days, take a puppet active from 10 to 86411 and seen at 86500, which meets the
  criteria, and a puppet with \<open>first_activity_ts = 5\<close> and no \<open>last_activity_ts\<close>. With
  the second row after the first the count is 2; with the same two rows in the other
  order it is 1; the first puppet alone gives 1.
\<close>

theorem UpdateActivePuppetCount_NULL_last_activity:
  "currentUserCount (UpdateActivePuppetCount
        \<lparr>MaxPuppetLimit = 5, MinPuppetActiveDays = 1, PuppetInactivityDays = 30,
          BlockOnLimitReached = True\<rparr>
        (Inr [scanned (86500, 10, 86411),
              \<lparr>now_unix = 86500, first_activity_ts = 5, last_activity_ts = None\<rparr>])
        \<lparr>currentUserCount = 0, isBlocked = False\<rparr>) = 2
   \<and> currentUserCount (UpdateActivePuppetCount
        \<lparr>MaxPuppetLimit = 5, MinPuppetActiveDays = 1, PuppetInactivityDays = 30,
          BlockOnLimitReached = True\<rparr>
        (Inr [\<lparr>now_unix = 86500, first_activity_ts = 5, last_activity_ts = None\<rparr>,
              scanned (86500, 10, 86411)])
        \<lparr>currentUserCount = 0, isBlocked = False\<rparr>) = 1
   \<and> currentUserCount (UpdateActivePuppetCount
        \<lparr>MaxPuppetLimit = 5, MinPuppetActiveDays = 1, PuppetInactivityDays = 30,
          BlockOnLimitReached = True\<rparr>
        (Inr [scanned (86500, 10, 86411)])
        \<lparr>currentUserCount = 0, isBlocked = False\<rparr>) = 1"
  by (simp add: run_Inr scanned_def Let_def maxActivityTime_def minActivityTime_def
      ONE_DAY_S_def word_sless_alt)

text \<open>
  C3. With \<open>BlockOnLimitReached\<close>, after a run whose query succeeded \<open>isBlocked\<close> holds
  exactly when \<open>MaxPuppetLimit\<close> is below the count the run stored, for any rows.
\<close>

theorem UpdateActivePuppetCount_blocked:
  "BlockOnLimitReached limits \<Longrightarrow>
     isBlocked (UpdateActivePuppetCount limits (Inr rows) pa) =
       (MaxPuppetLimit limits < currentUserCount (UpdateActivePuppetCount limits (Inr rows) pa))"
  by (simp add: run_Inr)

text \<open>
  The theorem at a limit of 0 and one active puppet: the count is 1 and the bridge is
  blocked.
\<close>

theorem UpdateActivePuppetCount_blocked_witness:
  "BlockOnLimitReached \<lparr>MaxPuppetLimit = 0, MinPuppetActiveDays = 1, PuppetInactivityDays = 30,
      BlockOnLimitReached = True\<rparr>
   \<and> currentUserCount (UpdateActivePuppetCount
        \<lparr>MaxPuppetLimit = 0, MinPuppetActiveDays = 1, PuppetInactivityDays = 30,
          BlockOnLimitReached = True\<rparr>
        (Inr [scanned (86500, 10, 86411)]) \<lparr>currentUserCount = 0, isBlocked = False\<rparr>) = 1
   \<and> isBlocked (UpdateActivePuppetCount
        \<lparr>MaxPuppetLimit = 0, MinPuppetActiveDays = 1, PuppetInactivityDays = 30,
          BlockOnLimitReached = True\<rparr>
        (Inr [scanned (86500, 10, 86411)]) \<lparr>currentUserCount = 0, isBlocked = False\<rparr>)"
proof -
  have h: "BlockOnLimitReached \<lparr>MaxPuppetLimit = 0, MinPuppetActiveDays = 1,
      PuppetInactivityDays = 30, BlockOnLimitReached = True\<rparr>"
    by simp
  have c: "currentUserCount (UpdateActivePuppetCount
        \<lparr>MaxPuppetLimit = 0, MinPuppetActiveDays = 1, PuppetInactivityDays = 30,
          BlockOnLimitReached = True\<rparr>
        (Inr [scanned (86500, 10, 86411)]) \<lparr>currentUserCount = 0, isBlocked = False\<rparr>) = 1"
    by (simp add: run_Inr scanned_def Let_def maxActivityTime_def minActivityTime_def
        ONE_DAY_S_def word_sless_alt)
  show ?thesis
    using h c UpdateActivePuppetCount_blocked [OF h, of "[scanned (86500, 10, 86411)]"
        "\<lparr>currentUserCount = 0, isBlocked = False\<rparr>"]
    by simp
qed


text \<open>
  C5, as amended. A run whose query fails assigns neither field. A run whose query
  succeeds always assigns \<open>currentUserCount\<close>; it assigns \<open>isBlocked\<close> exactly when
  \<open>BlockOnLimitReached\<close> is set, and otherwise \<open>isBlocked\<close> keeps the value it had.
\<close>

theorem UpdateActivePuppetCount_assignments:
  "\<not> assigns_currentUserCount (UpdateActivePuppetCount_effects limits (Inl err))
   \<and> \<not> assigns_isBlocked (UpdateActivePuppetCount_effects limits (Inl err))
   \<and> assigns_currentUserCount (UpdateActivePuppetCount_effects limits (Inr rows))
   \<and> assigns_isBlocked (UpdateActivePuppetCount_effects limits (Inr rows))
       = BlockOnLimitReached limits
   \<and> (\<not> BlockOnLimitReached limits \<longrightarrow>
        isBlocked (UpdateActivePuppetCount limits (Inr rows) pa) = isBlocked pa)"
  by (simp add: effects_Inl effects_Inr run_Inr assigns_isBlocked_def
      assigns_currentUserCount_def)

text \<open>
  The theorem at a configuration without \<open>BlockOnLimitReached\<close> and a blocked snapshot:
  the run assigns the count only, and the snapshot stays blocked.
\<close>

theorem UpdateActivePuppetCount_assignments_witness:
  "\<not> BlockOnLimitReached \<lparr>MaxPuppetLimit = 5, MinPuppetActiveDays = 1,
        PuppetInactivityDays = 30, BlockOnLimitReached = False\<rparr>
   \<and> assigns_currentUserCount (UpdateActivePuppetCount_effects
        \<lparr>MaxPuppetLimit = 5, MinPuppetActiveDays = 1, PuppetInactivityDays = 30,
          BlockOnLimitReached = False\<rparr> (Inr [scanned (86500, 10, 86411)]))
   \<and> \<not> assigns_isBlocked (UpdateActivePuppetCount_effects
        \<lparr>MaxPuppetLimit = 5, MinPuppetActiveDays = 1, PuppetInactivityDays = 30,
          BlockOnLimitReached = False\<rparr> (Inr [scanned (86500, 10, 86411)]))
   \<and> isBlocked (UpdateActivePuppetCount
        \<lparr>MaxPuppetLimit = 5, MinPuppetActiveDays = 1, PuppetInactivityDays = 30,
          BlockOnLimitReached = False\<rparr> (Inr [scanned (86500, 10, 86411)])
        \<lparr>currentUserCount = 7, isBlocked = True\<rparr>)"
  using UpdateActivePuppetCount_assignments
    [of "\<lparr>MaxPuppetLimit = 5, MinPuppetActiveDays = 1, PuppetInactivityDays = 30,
           BlockOnLimitReached = False\<rparr>" ConnectionError "[scanned (86500, 10, 86411)]"
        "\<lparr>currentUserCount = 7, isBlocked = True\<rparr>"]
  by simp

text \<open>
  C5 as it is written fails without \<open>BlockOnLimitReached\<close>: on the snapshot of 7 active
  puppets, blocked, a run over an empty table replaces the count by 0 and assigns nothing
  to \<open>isBlocked\<close>, which stays true. The result is neither the old pair nor a new one.
\<close>

theorem UpdateActivePuppetCount_pair_counterexample:
  "UpdateActivePuppetCount
      \<lparr>MaxPuppetLimit = 5, MinPuppetActiveDays = 1, PuppetInactivityDays = 30,
        BlockOnLimitReached = False\<rparr> (Inr [])
      \<lparr>currentUserCount = 7, isBlocked = True\<rparr>
     = \<lparr>currentUserCount = 0, isBlocked = True\<rparr>
   \<and> UpdateActivePuppetCount_effects
        \<lparr>MaxPuppetLimit = 5, MinPuppetActiveDays = 1, PuppetInactivityDays = 30,
          BlockOnLimitReached = False\<rparr> (Inr [])
     = [Debugfln ''Updating active puppet count'',
        Debugfln ''Current active puppet count is %d (max %d)'',
        Assign_currentUserCount 0]"
  by (simp add: UpdateActivePuppetCount_def UpdateActivePuppetCount_effects_def)

section \<open>Properties of \<open>StartUsers\<close>\<close>

lemma users_loop_eq:
  "users_loop users found =
     (map Go_Connect users, found \<or> (\<exists>u \<in> set users. \<not> IsEmpty (User_JID u)))"
  by (induction users arbitrary: found) auto

text \<open>
  C8, as amended. \<open>StartUsers\<close> starts \<open>Connect\<close> for every user of \<open>GetAllUsers\<close>, in
  order, whether the user's JID is empty or not. The emptiness of the JIDs decides one
  thing only: the global state Unconfigured is sent exactly when every JID is empty. The
  custom puppets are started after the users.
\<close>

theorem StartUsers_connects_every_user:
  "StartUsers users puppets =
     Debugln ''Starting users'' # map Go_Connect users
     @ (if \<forall>u \<in> set users. IsEmpty (User_JID u) then [SendGlobalBridgeState_Unconfigured] else [])
     @ Debugln ''Starting custom puppets'' # map Go_StartCustomMXID puppets"
  by (auto simp add: StartUsers_def users_loop_eq)

text \<open>
  The theorem at two users, the first without a JID, the second logged in: both are
  connected, and Unconfigured is not sent.
\<close>

theorem StartUsers_connects_every_user_witness:
  "StartUsers
     [\<lparr>MXID = ''@a:example.org'', User_JID = NewJID [] []\<rparr>,
      \<lparr>MXID = ''@b:example.org'', User_JID = NewJID ''4915112345'' DefaultUserServer\<rparr>] []
   = [Debugln ''Starting users'',
      Go_Connect \<lparr>MXID = ''@a:example.org'', User_JID = NewJID [] []\<rparr>,
      Go_Connect \<lparr>MXID = ''@b:example.org'',
                  User_JID = NewJID ''4915112345'' DefaultUserServer\<rparr>,
      Debugln ''Starting custom puppets'']"
  using StartUsers_connects_every_user
    [of "[\<lparr>MXID = ''@a:example.org'', User_JID = NewJID [] []\<rparr>,
          \<lparr>MXID = ''@b:example.org'', User_JID = NewJID ''4915112345'' DefaultUserServer\<rparr>]"
        "[]"]
  by (simp add: IsEmpty_def NewJID_def DefaultUserServer_def)

text \<open>
  C8 as it is written fails for a user without a JID: \<open>go user.Connect()\<close> is outside the
  test of \<open>user.JID.IsEmpty()\<close>, so the connect is started for that user too.
\<close>

theorem StartUsers_empty_JID_counterexample:
  "IsEmpty (User_JID \<lparr>MXID = ''@a:example.org'', User_JID = NewJID [] []\<rparr>)
   \<and> StartUsers [\<lparr>MXID = ''@a:example.org'', User_JID = NewJID [] []\<rparr>] []
     = [Debugln ''Starting users'',
        Go_Connect \<lparr>MXID = ''@a:example.org'', User_JID = NewJID [] []\<rparr>,
        SendGlobalBridgeState_Unconfigured,
        Debugln ''Starting custom puppets'']"
  by (simp add: StartUsers_def IsEmpty_def NewJID_def)

section \<open>Properties of \<open>Insert\<close>, \<open>Scan\<close> and \<open>Get\<close>\<close>

lemma NameQuality_roundtrip: "(ucast (scast (x :: 8 word) :: 64 word) :: 8 word) = x"
  by (rule bit_word_eqI) (auto simp: bit_simps)

lemma Exec_insert_ok:
  "User (JID p) \<notin> dom tbl \<Longrightarrow>
     Exec None insertPuppetQuery (sqlVariables lib p) tbl =
       (None, tbl(User (JID p) \<mapsto> inserted_row lib p))"
  by (simp add: insertPuppetQuery_def sqlVariables_def Let_def inserted_row_def)

lemma Exec_insert_dup:
  "User (JID p) \<in> dom tbl \<Longrightarrow>
     Exec None insertPuppetQuery (sqlVariables lib p) tbl = (Some UniqueViolation, tbl)"
  by (simp add: insertPuppetQuery_def sqlVariables_def Let_def)

lemma inserted_values:
  "map (inserted_row lib p) getAllPuppetsQuery =
     [SQL_Text (User (JID p)), SQL_Text (Avatar p), SQL_Text (uri_String lib (AvatarURL p)),
      SQL_Text (Displayname p), SQL_Int (scast (NameQuality p)), SQL_Bool (NameSet p),
      SQL_Bool (AvatarSet p), SQL_Bool (ContactInfoSet p),
      SQL_Int (if \<not> IsZero (LastSync p) then Unix (LastSync p) else 0),
      SQL_Text (CustomMXID p), SQL_Text (AccessToken p), SQL_Text (NextBatch p),
      SQL_Bool (EnablePresence p), SQL_Bool (EnableReceipts p), SQL_NULL, SQL_NULL]"
  by (simp add: inserted_row_def insertPuppetQuery_def sqlVariables_def Let_def
      getAllPuppetsQuery_def default_row_def)

lemma Scan_inserted:
  "Scan lib newPuppet (Inr (map (inserted_row lib p) getAllPuppetsQuery)) =
     Inr (p\<lparr>JID := NewJID (User (JID p)) DefaultUserServer,
           AvatarURL := ParseContentURI lib (uri_String lib (AvatarURL p)),
           LastSync := (if \<not> IsZero (LastSync p) \<and> 0 <s Unix (LastSync p)
                        then time_Unix (Unix (LastSync p)) 0 else zeroTime),
           FirstActivityTs := 0, LastActivityTs := 0\<rparr>)"
  by (simp add: inserted_values Scan_def NameQuality_roundtrip newPuppet_def word_sless_alt)

lemma Insert_ok:
  "Server (JID p) = DefaultUserServer \<Longrightarrow> User (JID p) \<notin> dom tbl \<Longrightarrow>
     Insert lib None p tbl = (None, tbl(User (JID p) \<mapsto> inserted_row lib p), [])"
  by (simp add: Insert_def Exec_insert_ok)

lemma Scan_values_JID:
  "Scan_values lib puppet vals = Inr puppet' \<Longrightarrow>
     JID puppet' = NewJID (NullString_String (hd vals)) DefaultUserServer"
  by (cases "(lib, puppet, vals)" rule: Scan_values.cases) (auto split: if_splits)

text \<open>
  C6. For a puppet whose JID has another server than \<open>DefaultUserServer\<close>, \<open>Insert\<close>
  returns no error, leaves the table as it is (the same rows, so the same number of rows)
  and logs the warning; this holds whatever the driver would have answered. For a puppet
  of the default server \<open>Insert\<close> executes the insert: its result is that of \<open>Exec\<close>;
  when the driver reports no failure and the user name is new, the table gains exactly the
  row of that user name, holding the fourteen arguments and NULL in both activity
  columns; a user name that is present is refused by the primary key and a failure of
  the driver is returned, both with the table unchanged.
\<close>

theorem Insert_namespace:
  "(Server (JID p) \<noteq> DefaultUserServer \<longrightarrow>
      Insert lib fault p tbl = (None, tbl, [Log_Warn ''Not inserting puppet: not a user''])
      \<and> card (dom (fst (snd (Insert lib fault p tbl)))) = card (dom tbl))
   \<and> (Server (JID p) = DefaultUserServer \<longrightarrow>
        Insert lib fault p tbl =
          (fst (Exec fault insertPuppetQuery (sqlVariables lib p) tbl),
           snd (Exec fault insertPuppetQuery (sqlVariables lib p) tbl), [])
        \<and> Insert lib (Some e) p tbl = (Some e, tbl, [])
        \<and> (User (JID p) \<in> dom tbl \<longrightarrow> Insert lib None p tbl = (Some UniqueViolation, tbl, []))
        \<and> (User (JID p) \<notin> dom tbl \<longrightarrow>
             Insert lib None p tbl = (None, tbl(User (JID p) \<mapsto> inserted_row lib p), [])
             \<and> dom (fst (snd (Insert lib None p tbl))) = insert (User (JID p)) (dom tbl)
             \<and> map (inserted_row lib p) getAllPuppetsQuery =
                 [SQL_Text (User (JID p)), SQL_Text (Avatar p),
                  SQL_Text (uri_String lib (AvatarURL p)), SQL_Text (Displayname p),
                  SQL_Int (scast (NameQuality p)), SQL_Bool (NameSet p),
                  SQL_Bool (AvatarSet p), SQL_Bool (ContactInfoSet p),
                  SQL_Int (if \<not> IsZero (LastSync p) then Unix (LastSync p) else 0),
                  SQL_Text (CustomMXID p), SQL_Text (AccessToken p), SQL_Text (NextBatch p),
                  SQL_Bool (EnablePresence p), SQL_Bool (EnableReceipts p),
                  SQL_NULL, SQL_NULL]))"
proof -
  have a: "Server (JID p) \<noteq> DefaultUserServer \<longrightarrow>
      Insert lib fault p tbl = (None, tbl, [Log_Warn ''Not inserting puppet: not a user''])
      \<and> card (dom (fst (snd (Insert lib fault p tbl)))) = card (dom tbl)"
    by (simp add: Insert_def)
  have b: "Server (JID p) = DefaultUserServer \<longrightarrow>
        Insert lib fault p tbl =
          (fst (Exec fault insertPuppetQuery (sqlVariables lib p) tbl),
           snd (Exec fault insertPuppetQuery (sqlVariables lib p) tbl), [])"
    by (simp add: Insert_def split: prod.splits)
  have c: "Server (JID p) = DefaultUserServer \<longrightarrow> Insert lib (Some e) p tbl = (Some e, tbl, [])"
    by (simp add: Insert_def)
  have d: "Server (JID p) = DefaultUserServer \<longrightarrow> User (JID p) \<in> dom tbl \<longrightarrow>
        Insert lib None p tbl = (Some UniqueViolation, tbl, [])"
    by (simp add: Insert_def Exec_insert_dup)
  have e: "Server (JID p) = DefaultUserServer \<longrightarrow> User (JID p) \<notin> dom tbl \<longrightarrow>
        Insert lib None p tbl = (None, tbl(User (JID p) \<mapsto> inserted_row lib p), [])
        \<and> dom (fst (snd (Insert lib None p tbl))) = insert (User (JID p)) (dom tbl)"
    by (simp add: Insert_ok)
  show ?thesis using a b c d e inserted_values [of lib p] by blast
qed

text \<open>
  The theorem at a broadcast list and at a contact, on the empty table: the first is not
  written, the second is the one row afterwards; and at the contact once more, on a
  table that has its user name: the primary key refuses it.
\<close>

theorem Insert_namespace_witness:
  "Server (JID (newPuppet\<lparr>JID := NewJID ''status'' ''broadcast''\<rparr>)) \<noteq> DefaultUserServer
   \<and> Insert mxc_lib None (newPuppet\<lparr>JID := NewJID ''status'' ''broadcast''\<rparr>) Map.empty
       = (None, Map.empty, [Log_Warn ''Not inserting puppet: not a user''])
   \<and> Server (JID (newPuppet\<lparr>JID := NewJID ''4915112345'' DefaultUserServer\<rparr>))
       = DefaultUserServer
   \<and> fst (Insert mxc_lib None (newPuppet\<lparr>JID := NewJID ''4915112345'' DefaultUserServer\<rparr>)
        Map.empty) = None
   \<and> dom (fst (snd (Insert mxc_lib None
        (newPuppet\<lparr>JID := NewJID ''4915112345'' DefaultUserServer\<rparr>) Map.empty)))
       = {''4915112345''}
   \<and> Insert mxc_lib None (newPuppet\<lparr>JID := NewJID ''4915112345'' DefaultUserServer\<rparr>)
        [''4915112345'' \<mapsto> default_row]
       = (Some UniqueViolation, [''4915112345'' \<mapsto> default_row], [])"
proof -
  have h1: "Server (JID (newPuppet\<lparr>JID := NewJID ''status'' ''broadcast''\<rparr>))
      \<noteq> DefaultUserServer"
    by (simp add: NewJID_def DefaultUserServer_def)
  have h2: "Server (JID (newPuppet\<lparr>JID := NewJID ''4915112345'' DefaultUserServer\<rparr>))
      = DefaultUserServer"
    by (simp add: NewJID_def)
  have h3: "User (JID (newPuppet\<lparr>JID := NewJID ''4915112345'' DefaultUserServer\<rparr>))
      \<notin> dom (Map.empty :: puppet_table)"
    by simp
  have u: "User (JID (newPuppet\<lparr>JID := NewJID ''4915112345'' DefaultUserServer\<rparr>))
      = ''4915112345''"
    by (simp add: NewJID_def)
  have r1: "Insert mxc_lib None (newPuppet\<lparr>JID := NewJID ''status'' ''broadcast''\<rparr>) Map.empty
       = (None, Map.empty, [Log_Warn ''Not inserting puppet: not a user''])"
    using h1 Insert_namespace [of "newPuppet\<lparr>JID := NewJID ''status'' ''broadcast''\<rparr>"
        mxc_lib None Map.empty ConnectionError]
    by blast
  have r2: "Insert mxc_lib None (newPuppet\<lparr>JID := NewJID ''4915112345'' DefaultUserServer\<rparr>)
        Map.empty
       = (None, [User (JID (newPuppet\<lparr>JID := NewJID ''4915112345'' DefaultUserServer\<rparr>))
           \<mapsto> inserted_row mxc_lib
               (newPuppet\<lparr>JID := NewJID ''4915112345'' DefaultUserServer\<rparr>)], [])"
    using h2 h3 Insert_namespace
        [of "newPuppet\<lparr>JID := NewJID ''4915112345'' DefaultUserServer\<rparr>"
          mxc_lib None Map.empty ConnectionError]
    by blast
  have f: "fst (Insert mxc_lib None
        (newPuppet\<lparr>JID := NewJID ''4915112345'' DefaultUserServer\<rparr>) Map.empty) = None"
    by (simp add: r2)
  have d: "dom (fst (snd (Insert mxc_lib None
        (newPuppet\<lparr>JID := NewJID ''4915112345'' DefaultUserServer\<rparr>) Map.empty)))
       = {''4915112345''}"
    unfolding r2 by (simp add: NewJID_def)
  have h4: "User (JID (newPuppet\<lparr>JID := NewJID ''4915112345'' DefaultUserServer\<rparr>))
      \<in> dom [''4915112345'' \<mapsto> default_row]"
    by (simp add: NewJID_def)
  have r3: "Insert mxc_lib None (newPuppet\<lparr>JID := NewJID ''4915112345'' DefaultUserServer\<rparr>)
        [''4915112345'' \<mapsto> default_row]
       = (Some UniqueViolation, [''4915112345'' \<mapsto> default_row], [])"
    using h2 h4 Insert_namespace
        [of "newPuppet\<lparr>JID := NewJID ''4915112345'' DefaultUserServer\<rparr>"
          mxc_lib None "[''4915112345'' \<mapsto> default_row]" ConnectionError]
    by blast
  show ?thesis using h1 h2 r1 f d r3 by blast
qed

text \<open>
  C7, as amended. For a puppet of the default server whose user name is new, \<open>Insert\<close>
  followed by \<open>Get\<close> of its JID, both without a failure of the driver, returns the puppet
  with these fields replaced and every other field as it was: the JID is
  \<open>NewJID\<close> of its user and the default server; the avatar URI is the parse of its
  printed form; \<open>LastSync\<close> is cut to whole seconds, and is the zero time when it was the
  zero time or when its Unix time is not positive; \<open>FirstActivityTs\<close> and
  \<open>LastActivityTs\<close>, which the insert does not write, are 0. A zero \<open>LastSync\<close> is stored
  as the integer 0 and comes back as the zero time.
\<close>

theorem Insert_Get_roundtrip:
  "(Server (JID p) = DefaultUserServer \<and> User (JID p) \<notin> dom tbl \<longrightarrow>
     Get lib None (fst (snd (Insert lib None p tbl))) (JID p) =
       Inr (Some (p\<lparr>JID := NewJID (User (JID p)) DefaultUserServer,
                    AvatarURL := ParseContentURI lib (uri_String lib (AvatarURL p)),
                    LastSync := (if \<not> IsZero (LastSync p) \<and> 0 <s Unix (LastSync p)
                                 then time_Unix (Unix (LastSync p)) 0 else zeroTime),
                    FirstActivityTs := 0, LastActivityTs := 0\<rparr>)))
   \<and> (Server (JID q) = DefaultUserServer \<and> User (JID q) \<notin> dom tbl
        \<and> LastSync q = zeroTime \<longrightarrow>
        inserted_row lib q col_last_sync = SQL_Int 0
        \<and> map_sum id (map_option LastSync)
             (Get lib None (fst (snd (Insert lib None q tbl))) (JID q)) = Inr (Some zeroTime))"
proof -
  have z: "inserted_row lib q col_last_sync
             = SQL_Int (if \<not> IsZero (LastSync q) then Unix (LastSync q) else 0)"
    by (simp add: inserted_row_def insertPuppetQuery_def sqlVariables_def Let_def)
  have a: "Server (JID p) = DefaultUserServer \<and> User (JID p) \<notin> dom tbl \<longrightarrow>
     Get lib None (fst (snd (Insert lib None p tbl))) (JID p) =
       Inr (Some (p\<lparr>JID := NewJID (User (JID p)) DefaultUserServer,
                    AvatarURL := ParseContentURI lib (uri_String lib (AvatarURL p)),
                    LastSync := (if \<not> IsZero (LastSync p) \<and> 0 <s Unix (LastSync p)
                                 then time_Unix (Unix (LastSync p)) 0 else zeroTime),
                    FirstActivityTs := 0, LastActivityTs := 0\<rparr>))"
    by (simp add: Insert_ok Get_def Scan_inserted)
  have b: "Server (JID q) = DefaultUserServer \<and> User (JID q) \<notin> dom tbl
        \<and> LastSync q = zeroTime \<longrightarrow>
        inserted_row lib q col_last_sync = SQL_Int 0
        \<and> map_sum id (map_option LastSync)
             (Get lib None (fst (snd (Insert lib None q tbl))) (JID q)) = Inr (Some zeroTime)"
    by (simp add: Insert_ok Get_def Scan_inserted z) (simp add: IsZero_def zeroTime_def)
  show ?thesis using a b by blast
qed

text \<open>
  The theorem at a contact with a name, an avatar URI, a name quality of -3 and a
  \<open>LastSync\<close> on a whole second: every field comes back. And at a contact that was
  never synchronised: the column holds 0 and the zero time comes back.
\<close>

theorem Insert_Get_roundtrip_witness:
  "Server (JID (newPuppet\<lparr>JID := NewJID ''4915112345'' DefaultUserServer,
       AvatarURL := \<lparr>Homeserver = ''example.org'', FileID = ''abc''\<rparr>,
       Displayname := ''Ada'', NameQuality := - 3,
       LastSync := time_Unix 1700000000 0\<rparr>)) = DefaultUserServer
   \<and> Get mxc_lib None (fst (snd (Insert mxc_lib None
        (newPuppet\<lparr>JID := NewJID ''4915112345'' DefaultUserServer,
           AvatarURL := \<lparr>Homeserver = ''example.org'', FileID = ''abc''\<rparr>,
           Displayname := ''Ada'', NameQuality := - 3,
           LastSync := time_Unix 1700000000 0\<rparr>) Map.empty)))
        (NewJID ''4915112345'' DefaultUserServer)
     = Inr (Some (newPuppet\<lparr>JID := NewJID ''4915112345'' DefaultUserServer,
           AvatarURL := \<lparr>Homeserver = ''example.org'', FileID = ''abc''\<rparr>,
           Displayname := ''Ada'', NameQuality := - 3,
           LastSync := time_Unix 1700000000 0\<rparr>))
   \<and> LastSync (newPuppet\<lparr>JID := NewJID ''4915112346'' DefaultUserServer\<rparr>) = zeroTime
   \<and> inserted_row mxc_lib (newPuppet\<lparr>JID := NewJID ''4915112346'' DefaultUserServer\<rparr>)
        col_last_sync = SQL_Int 0
   \<and> map_sum id (map_option LastSync)
        (Get mxc_lib None (fst (snd (Insert mxc_lib None
           (newPuppet\<lparr>JID := NewJID ''4915112346'' DefaultUserServer\<rparr>) Map.empty)))
           (NewJID ''4915112346'' DefaultUserServer)) = Inr (Some zeroTime)"
  using Insert_Get_roundtrip
    [of "newPuppet\<lparr>JID := NewJID ''4915112345'' DefaultUserServer,
           AvatarURL := \<lparr>Homeserver = ''example.org'', FileID = ''abc''\<rparr>,
           Displayname := ''Ada'', NameQuality := - 3,
           LastSync := time_Unix 1700000000 0\<rparr>" Map.empty mxc_lib
        "newPuppet\<lparr>JID := NewJID ''4915112346'' DefaultUserServer\<rparr>"]
  by (simp add: NewJID_def newPuppet_def mxc_lib_def ContentURI_String_def
      mxc_ParseContentURI_def IsZero_def Unix_def time_Unix_def zeroTime_def word_sless_alt
      Let_def)

text \<open>
  C7 as it is written fails on \<open>LastSync\<close>: the column holds whole seconds. A contact
  synchronised 5 nanoseconds after a full second comes back with the nanoseconds gone;
  every other field of this puppet comes back as it was.
\<close>

theorem Insert_Get_roundtrip_counterexample:
  "Server (JID (newPuppet\<lparr>JID := NewJID ''4915112345'' DefaultUserServer,
       LastSync := time_Unix 1700000000 5\<rparr>)) = DefaultUserServer
   \<and> Get mxc_lib None (fst (snd (Insert mxc_lib None
        (newPuppet\<lparr>JID := NewJID ''4915112345'' DefaultUserServer,
           LastSync := time_Unix 1700000000 5\<rparr>) Map.empty)))
        (NewJID ''4915112345'' DefaultUserServer)
     = Inr (Some (newPuppet\<lparr>JID := NewJID ''4915112345'' DefaultUserServer,
           LastSync := time_Unix 1700000000 0\<rparr>))
   \<and> newPuppet\<lparr>JID := NewJID ''4915112345'' DefaultUserServer,
        LastSync := time_Unix 1700000000 0\<rparr>
     \<noteq> newPuppet\<lparr>JID := NewJID ''4915112345'' DefaultUserServer,
          LastSync := time_Unix 1700000000 5\<rparr>"
proof -
  have u: "User (JID (newPuppet\<lparr>JID := NewJID ''4915112345'' DefaultUserServer,
       LastSync := time_Unix 1700000000 5\<rparr>)) = ''4915112345''"
    by (simp add: NewJID_def)
  have s: "Server (JID (newPuppet\<lparr>JID := NewJID ''4915112345'' DefaultUserServer,
       LastSync := time_Unix 1700000000 5\<rparr>)) = DefaultUserServer"
    by (simp add: NewJID_def)
  have i: "Insert mxc_lib None (newPuppet\<lparr>JID := NewJID ''4915112345'' DefaultUserServer,
           LastSync := time_Unix 1700000000 5\<rparr>) Map.empty
     = (None, [''4915112345'' \<mapsto> inserted_row mxc_lib
          (newPuppet\<lparr>JID := NewJID ''4915112345'' DefaultUserServer,
             LastSync := time_Unix 1700000000 5\<rparr>)], [])"
    using Insert_ok [OF s, of Map.empty mxc_lib] u by simp
  have g: "Get mxc_lib None [''4915112345'' \<mapsto> inserted_row mxc_lib
          (newPuppet\<lparr>JID := NewJID ''4915112345'' DefaultUserServer,
             LastSync := time_Unix 1700000000 5\<rparr>)] (NewJID ''4915112345'' DefaultUserServer)
     = Inr (Some (newPuppet\<lparr>JID := NewJID ''4915112345'' DefaultUserServer,
           LastSync := time_Unix 1700000000 0\<rparr>))"
    by (simp add: Get_def Scan_inserted)
      (simp add: NewJID_def newPuppet_def mxc_lib_def ContentURI_String_def
        mxc_ParseContentURI_def IsZero_def Unix_def time_Unix_def zeroTime_def word_sless_alt)
  have n: "newPuppet\<lparr>JID := NewJID ''4915112345'' DefaultUserServer,
        LastSync := time_Unix 1700000000 0\<rparr>
     \<noteq> newPuppet\<lparr>JID := NewJID ''4915112345'' DefaultUserServer,
          LastSync := time_Unix 1700000000 5\<rparr>"
    by (simp add: newPuppet_def time_Unix_def)
  show ?thesis using s i g n by simp
qed

text \<open>
  C10. A puppet that \<open>Scan\<close> returns has the JID \<open>NewJID\<close> of the scanned user name and
  \<open>DefaultUserServer\<close>: the server is the default server and the agent, device and
  integrator parts are 0, whatever JID the puppet scanned into had. The same holds for
  the puppet \<open>Get\<close> returns, whose user name is that of the row; and a puppet inserted with
  a device part comes back from \<open>Get\<close> without it.
\<close>

theorem Scan_JID_default_server:
  "(Scan lib puppet (Inr vals) = Inr puppet' \<longrightarrow>
      JID puppet' = NewJID (NullString_String (hd vals)) DefaultUserServer
      \<and> Server (JID puppet') = DefaultUserServer
      \<and> RawAgent (JID puppet') = 0 \<and> Device (JID puppet') = 0 \<and> Integrator (JID puppet') = 0)
   \<and> Scan lib puppet (Inl err) = Inl err
   \<and> (Get lib fault tbl jid = Inr (Some puppet'') \<longrightarrow>
        (\<exists>r. tbl (User jid) = Some r
           \<and> JID puppet'' = NewJID (NullString_String (r col_username)) DefaultUserServer)
        \<and> Server (JID puppet'') = DefaultUserServer
        \<and> RawAgent (JID puppet'') = 0 \<and> Device (JID puppet'') = 0
        \<and> Integrator (JID puppet'') = 0)
   \<and> (Server (JID p) = DefaultUserServer \<and> User (JID p) \<notin> dom tbl0 \<longrightarrow>
        map_sum id (map_option JID) (Get lib None (fst (snd (Insert lib None p tbl0))) (JID p))
          = Inr (Some (NewJID (User (JID p)) DefaultUserServer)))"
proof -
  have a: "Scan lib puppet (Inr vals) = Inr puppet' \<longrightarrow>
      JID puppet' = NewJID (NullString_String (hd vals)) DefaultUserServer"
    by (simp add: Scan_def Scan_values_JID)
  have b: "Get lib fault tbl jid = Inr (Some puppet'') \<longrightarrow>
        (\<exists>r. tbl (User jid) = Some r
           \<and> JID puppet'' = NewJID (NullString_String (r col_username)) DefaultUserServer)"
  proof
    assume g: "Get lib fault tbl jid = Inr (Some puppet'')"
    then obtain r where r: "tbl (User jid) = Some r"
      and s: "Scan_values lib newPuppet (map r getAllPuppetsQuery) = Inr puppet''"
      by (auto simp: Get_def Scan_def split: option.splits sum.splits)
    have "JID puppet''
        = NewJID (NullString_String (hd (map r getAllPuppetsQuery))) DefaultUserServer"
      using s by (rule Scan_values_JID)
    then have "JID puppet'' = NewJID (NullString_String (r col_username)) DefaultUserServer"
      by (simp add: getAllPuppetsQuery_def)
    then show "\<exists>r. tbl (User jid) = Some r
           \<and> JID puppet'' = NewJID (NullString_String (r col_username)) DefaultUserServer"
      using r by blast
  qed
  have c: "Server (JID p) = DefaultUserServer \<and> User (JID p) \<notin> dom tbl0 \<longrightarrow>
        map_sum id (map_option JID) (Get lib None (fst (snd (Insert lib None p tbl0))) (JID p))
          = Inr (Some (NewJID (User (JID p)) DefaultUserServer))"
    by (simp add: Insert_ok Get_def Scan_inserted)
  have d: "Scan lib puppet (Inl err) = Inl err"
    by (simp add: Scan_def)
  show ?thesis using a b c d by (auto simp: NewJID_def)
qed

text \<open>
  The theorem at a contact that carries the device part 7. \<open>Scan\<close> into that very puppet
  of a row with its user name and NULL elsewhere returns the JID without the device
  part; so does \<open>Get\<close> from a table with that row; and inserted into the empty table,
  the contact comes back from \<open>Get\<close> with the device part 0.
\<close>

theorem Scan_JID_default_server_witness:
  "Device (JID (newPuppet\<lparr>JID := (NewJID ''4915112345'' DefaultUserServer)\<lparr>Device := 7\<rparr>\<rparr>))
     = 7
   \<and> Scan mxc_lib
        (newPuppet\<lparr>JID := (NewJID ''4915112345'' DefaultUserServer)\<lparr>Device := 7\<rparr>\<rparr>)
        (Inr [SQL_Text ''4915112345'', SQL_NULL, SQL_NULL, SQL_NULL, SQL_NULL, SQL_NULL,
              SQL_NULL, SQL_NULL, SQL_NULL, SQL_NULL, SQL_NULL, SQL_NULL, SQL_NULL, SQL_NULL,
              SQL_NULL, SQL_NULL])
     = Inr (newPuppet\<lparr>JID := NewJID ''4915112345'' DefaultUserServer,
              EnablePresence := False, EnableReceipts := False\<rparr>)
   \<and> Device (JID (newPuppet\<lparr>JID := NewJID ''4915112345'' DefaultUserServer,
              EnablePresence := False, EnableReceipts := False\<rparr>)) = 0
   \<and> Get mxc_lib None
        [''4915112345'' \<mapsto> default_row(col_username := SQL_Text ''4915112345'')]
        ((NewJID ''4915112345'' DefaultUserServer)\<lparr>Device := 7\<rparr>)
     = Inr (Some (newPuppet\<lparr>JID := NewJID ''4915112345'' DefaultUserServer\<rparr>))
   \<and> Server (JID (newPuppet\<lparr>JID := NewJID ''4915112345'' DefaultUserServer\<rparr>))
     = DefaultUserServer
   \<and> map_sum id (map_option JID)
       (Get mxc_lib None (fst (snd (Insert mxc_lib None
          (newPuppet\<lparr>JID := (NewJID ''4915112345'' DefaultUserServer)\<lparr>Device := 7\<rparr>\<rparr>)
          Map.empty)))
          ((NewJID ''4915112345'' DefaultUserServer)\<lparr>Device := 7\<rparr>))
     = Inr (Some (NewJID ''4915112345'' DefaultUserServer))"
proof -
  have h1: "Scan mxc_lib
        (newPuppet\<lparr>JID := (NewJID ''4915112345'' DefaultUserServer)\<lparr>Device := 7\<rparr>\<rparr>)
        (Inr [SQL_Text ''4915112345'', SQL_NULL, SQL_NULL, SQL_NULL, SQL_NULL, SQL_NULL,
              SQL_NULL, SQL_NULL, SQL_NULL, SQL_NULL, SQL_NULL, SQL_NULL, SQL_NULL, SQL_NULL,
              SQL_NULL, SQL_NULL])
     = Inr (newPuppet\<lparr>JID := NewJID ''4915112345'' DefaultUserServer,
              EnablePresence := False, EnableReceipts := False\<rparr>)"
    by (simp add: Scan_def newPuppet_def mxc_lib_def mxc_ParseContentURI_def word_sless_alt)
  have h2: "Get mxc_lib None
        [''4915112345'' \<mapsto> default_row(col_username := SQL_Text ''4915112345'')]
        ((NewJID ''4915112345'' DefaultUserServer)\<lparr>Device := 7\<rparr>)
     = Inr (Some (newPuppet\<lparr>JID := NewJID ''4915112345'' DefaultUserServer\<rparr>))"
    by (simp add: Get_def Scan_def getAllPuppetsQuery_def default_row_def NewJID_def
        newPuppet_def mxc_lib_def mxc_ParseContentURI_def word_sless_alt)
  have h3: "Server (JID (newPuppet\<lparr>JID :=
        (NewJID ''4915112345'' DefaultUserServer)\<lparr>Device := 7\<rparr>\<rparr>)) = DefaultUserServer
      \<and> User (JID (newPuppet\<lparr>JID :=
        (NewJID ''4915112345'' DefaultUserServer)\<lparr>Device := 7\<rparr>\<rparr>))
          \<notin> dom (Map.empty :: puppet_table)"
    by (simp add: NewJID_def)
  have t: "Device (JID (newPuppet\<lparr>JID := NewJID ''4915112345'' DefaultUserServer,
              EnablePresence := False, EnableReceipts := False\<rparr>)) = 0
      \<and> Server (JID (newPuppet\<lparr>JID := NewJID ''4915112345'' DefaultUserServer\<rparr>))
          = DefaultUserServer
      \<and> map_sum id (map_option JID)
          (Get mxc_lib None (fst (snd (Insert mxc_lib None
            (newPuppet\<lparr>JID := (NewJID ''4915112345'' DefaultUserServer)\<lparr>Device := 7\<rparr>\<rparr>)
            Map.empty)))
            (JID (newPuppet\<lparr>JID :=
               (NewJID ''4915112345'' DefaultUserServer)\<lparr>Device := 7\<rparr>\<rparr>)))
          = Inr (Some (NewJID (User (JID (newPuppet\<lparr>JID :=
               (NewJID ''4915112345'' DefaultUserServer)\<lparr>Device := 7\<rparr>\<rparr>))) DefaultUserServer))"
    using h1 h2 h3 Scan_JID_default_server
      [of mxc_lib
        "newPuppet\<lparr>JID := (NewJID ''4915112345'' DefaultUserServer)\<lparr>Device := 7\<rparr>\<rparr>"
        "[SQL_Text ''4915112345'', SQL_NULL, SQL_NULL, SQL_NULL, SQL_NULL, SQL_NULL,
          SQL_NULL, SQL_NULL, SQL_NULL, SQL_NULL, SQL_NULL, SQL_NULL, SQL_NULL, SQL_NULL,
          SQL_NULL, SQL_NULL]"
        "newPuppet\<lparr>JID := NewJID ''4915112345'' DefaultUserServer,
              EnablePresence := False, EnableReceipts := False\<rparr>"
        ConnectionError None
        "[''4915112345'' \<mapsto> default_row(col_username := SQL_Text ''4915112345'')]"
        "(NewJID ''4915112345'' DefaultUserServer)\<lparr>Device := 7\<rparr>"
        "newPuppet\<lparr>JID := NewJID ''4915112345'' DefaultUserServer\<rparr>"
        "newPuppet\<lparr>JID := (NewJID ''4915112345'' DefaultUserServer)\<lparr>Device := 7\<rparr>\<rparr>"
        Map.empty]
    by blast
  have dv: "Device (JID (newPuppet\<lparr>JID :=
        (NewJID ''4915112345'' DefaultUserServer)\<lparr>Device := 7\<rparr>\<rparr>)) = 7"
    by simp
  show ?thesis using h1 h2 t dv by (simp add: NewJID_def)
qed

end
